theory Spec2Isabelle
  imports Main "HOL-Library.Word"
begin

section \<open>Common vocabulary: machine integers, errors, outcomes of a call\<close>

type_synonym uint64 = "64 word"

text \<open>
  A Go \<open>error\<close> value. The two sentinel errors of package etcdserver that the dispatcher
  returns, the five errors that \<open>validateConsistentIndex\<close> builds with \<open>fmt.Errorf\<close>
  (one constructor for each call site, carrying the two values that the format string
  prints, in the order of its two \<open>%v\<close>), and \<open>ForeignError\<close> for an error made by a
  collaborator (WAL reader, store, marshaller, context). A nil error is \<open>None\<close> of
  \<open>error option\<close>.
\<close>

datatype error =
    ErrUnknownMethod
  | ErrStopped
  | ErrIndexNotExact uint64 uint64
      \<comment> \<open>backend.ConsistentIndex (index) expected == WAL.HardState.commit (commit)\<close>
  | ErrTermNotExact uint64 uint64
      \<comment> \<open>backend.Term (term) expected == WAL.HardState.term, (hardstate term)\<close>
  | ErrIndexAboveCommit uint64 uint64
      \<comment> \<open>backend.ConsistentIndex (index) must be <= WAL.HardState.commit (commit)\<close>
  | ErrTermAboveHardState uint64 uint64
      \<comment> \<open>backend.Term (term) must be <= WAL.HardState.term, (hardstate term)\<close>
  | ErrIndexBelowSnapshot uint64 uint64
      \<comment> \<open>backend.ConsistentIndex (index) must be >= last snapshot index (snapshot index)\<close>
  | ForeignError string

text \<open>
  The value a Go panic carries: the run-time error of an index out of range (with the
  index), of a failed type assertion, a duplicate registration in the wait table, or
  the value with which a collaborator panicked.
\<close>

datatype panic_value =
    IndexOutOfRange int
  | InterfaceConversion
  | DuplicateID uint64
  | PanicValue string

text \<open>
  How a call ends: it returns a value, it panics, it ends the process (\<open>Logger.Fatal\<close>
  logs and calls \<open>os.Exit\<close>), or it never returns because the \<open>select\<close> it waits in is
  never resolved.
\<close>

datatype 'a outcome = Return 'a | Panic panic_value | Exit | Blocks

fun returns :: "'a outcome \<Rightarrow> bool" where
  "returns (Return v) = True"
| "returns (Panic p) = False"
| "returns Exit = False"
| "returns Blocks = False"

section \<open>Package verify: consistency of a data directory\<close>

text \<open>
  \<open>Config\<close> without its \<open>Logger\<close>: log lines are an effect outside this model, and the
  logger of a configuration is taken to be usable wherever the code logs through it.
\<close>

record Config =
  DataDir :: string
  ExactIndex :: bool

text \<open>\<open>raftpb.HardState\<close> and \<open>walpb.Snapshot\<close>, with the fields the verifier reads.\<close>

record HardState =
  Term :: uint64
  Vote :: uint64
  Commit :: uint64

record Snapshot =
  Index :: uint64
  Term :: uint64

text \<open>
  The backend as far as the verifier reads it: whether the file has a meta bucket, and
  the two markers stored there under the keys \<open>consistent_index\<close> and \<open>term\<close>.
  \<open>cindex.ReadConsistentIndex\<close> reads both through the batch transaction of the
  backend and returns them as a pair. On a backend without meta bucket the read does
  not return: the transaction reports the missing bucket with \<open>Logger.Fatal\<close>, and
  that ends the process.
\<close>

record Backend =
  meta_bucket :: bool
  consistent_index :: uint64
  backend_term :: uint64

definition ReadConsistentIndex :: "Backend \<Rightarrow> (uint64 \<times> uint64) outcome" where
  "ReadConsistentIndex be =
     (if meta_bucket be then Return (consistent_index be, backend_term be) else Exit)"

fun andThen :: "'a outcome \<Rightarrow> ('a \<Rightarrow> 'b outcome) \<Rightarrow> 'b outcome" where
  "andThen (Return v) f = f v"
| "andThen (Panic p) f = Panic p"
| "andThen Exit f = Exit"
| "andThen Blocks f = Blocks"

text \<open>
  \<open>validateConsistentIndex\<close>: the read of the two markers, then five guarded returns
  in the order of the source, then nil. The comparisons are those of \<open>uint64\<close>,
  unsigned.
\<close>

definition validateConsistentIndex ::
  "Config \<Rightarrow> HardState \<Rightarrow> Snapshot \<Rightarrow> Backend \<Rightarrow> error option outcome" where
  "validateConsistentIndex cfg hardstate snapshot be =
     andThen (ReadConsistentIndex be) (\<lambda>(index, term).
        if ExactIndex cfg \<and> index \<noteq> HardState.Commit hardstate
          then Return (Some (ErrIndexNotExact index (HardState.Commit hardstate)))
        else if ExactIndex cfg \<and> term \<noteq> HardState.Term hardstate
          then Return (Some (ErrTermNotExact term (HardState.Term hardstate)))
        else if index > HardState.Commit hardstate
          then Return (Some (ErrIndexAboveCommit index (HardState.Commit hardstate)))
        else if term > HardState.Term hardstate
          then Return (Some (ErrTermAboveHardState term (HardState.Term hardstate)))
        else if index < Snapshot.Index snapshot
          then Return (Some (ErrIndexBelowSnapshot index (Snapshot.Index snapshot)))
        else Return None)"

text \<open>
  The specification's reading of the same step, for comparison with the code: the
  invariants in the order in which they are to be evaluated, each with the error that
  names it and both observed values; the answer is the error of the first invariant
  that does not hold.
\<close>

definition spec_invariants ::
  "Config \<Rightarrow> HardState \<Rightarrow> Snapshot \<Rightarrow> Backend \<Rightarrow> (bool \<times> error) list" where
  "spec_invariants cfg hardstate snapshot be =
     [(ExactIndex cfg \<longrightarrow> consistent_index be = HardState.Commit hardstate,
         ErrIndexNotExact (consistent_index be) (HardState.Commit hardstate)),
      (ExactIndex cfg \<longrightarrow> backend_term be = HardState.Term hardstate,
         ErrTermNotExact (backend_term be) (HardState.Term hardstate)),
      (consistent_index be \<le> HardState.Commit hardstate,
         ErrIndexAboveCommit (consistent_index be) (HardState.Commit hardstate)),
      (backend_term be \<le> HardState.Term hardstate,
         ErrTermAboveHardState (backend_term be) (HardState.Term hardstate)),
      (Snapshot.Index snapshot \<le> consistent_index be,
         ErrIndexBelowSnapshot (consistent_index be) (Snapshot.Index snapshot))]"

fun first_violated :: "(bool \<times> error) list \<Rightarrow> error option" where
  "first_violated [] = None"
| "first_violated ((holds, err) # rest) = (if holds then first_violated rest else Some err)"

text \<open>
  A call of a collaborator or of the run time that may panic instead of returning:
  \<open>Inl\<close> the panic value, \<open>Inr\<close> the result.
\<close>

fun call :: "panic_value + 'a \<Rightarrow> 'a outcome" where
  "call (Inl p) = Panic p"
| "call (Inr v) = Return v"

text \<open>
  What the verifier calls outside its own package, taken as parameters: the process
  environment (\<open>os.Getenv\<close> gives the empty string for an unset variable), the two path
  functions of package datadir, \<open>backend.New\<close> (given the path of the backend file),
  \<open>wal.ValidSnapshotEntries\<close> and \<open>wal.Verify\<close> (given the WAL directory). The three
  calls that open files may panic instead of returning. \<open>wal.Verify\<close> returns a hard
  state exactly when it returns no error. What \<open>backend.New\<close> returns says whether the
  file it opened has a meta bucket.
\<close>

record Collaborators =
  environ :: "string \<rightharpoonup> string"
  ToBackendFileName :: "string \<Rightarrow> string"
  ToWalDir :: "string \<Rightarrow> string"
  backend_New :: "string \<Rightarrow> panic_value + Backend"
  ValidSnapshotEntries :: "string \<Rightarrow> panic_value + Snapshot list \<times> error option"
  wal_Verify :: "string \<Rightarrow> Snapshot \<Rightarrow> panic_value + (error + HardState)"

definition ENV_VERIFY :: string where
  "ENV_VERIFY = ''ETCD_VERIFY''"

definition ENV_VERIFY_ALL_VALUE :: string where
  "ENV_VERIFY_ALL_VALUE = ''all''"

definition Getenv :: "Collaborators \<Rightarrow> string \<Rightarrow> string" where
  "Getenv c key = (case environ c key of None \<Rightarrow> [] | Some v \<Rightarrow> v)"

text \<open>
  \<open>validateWal\<close>. The element \<open>walSnaps[len(walSnaps)-1]\<close> is read without a check
  of the length: on an empty slice the index is -1 and the Go run time panics.
\<close>

definition validateWal ::
  "Collaborators \<Rightarrow> Config \<Rightarrow> (error + Snapshot \<times> HardState) outcome" where
  "validateWal c cfg =
     (let walDir = ToWalDir c (DataDir cfg) in
      andThen (call (ValidSnapshotEntries c walDir)) (\<lambda>(walSnaps, err).
        case err of
          Some e \<Rightarrow> Return (Inl e)
        | None \<Rightarrow>
            if int (length walSnaps) - 1 < 0
              then Panic (IndexOutOfRange (int (length walSnaps) - 1))
            else
              (let snapshot = walSnaps ! nat (int (length walSnaps) - 1) in
               andThen (call (wal_Verify c walDir snapshot)) (\<lambda>res.
                 case res of
                   Inl e \<Rightarrow> Return (Inl e)
                 | Inr hardstate \<Rightarrow> Return (Inr (snapshot, hardstate))))))"

text \<open>
  \<open>Verify\<close>: the body, then the deferred function. The deferred \<open>be.Close()\<close> and the
  log lines are effects outside the model. The deferred function recovers a panic of
  the body (\<open>err\<close> is nil then) and raises it again with the same value; a returned
  value passes through it unchanged. When the process ends inside the body, no
  deferred function runs.
\<close>

definition Verify_body :: "Collaborators \<Rightarrow> Config \<Rightarrow> error option outcome" where
  "Verify_body c cfg =
     andThen (call (backend_New c (ToBackendFileName c (DataDir cfg)))) (\<lambda>be.
       andThen (validateWal c cfg) (\<lambda>res.
         case res of
           Inl err \<Rightarrow> Return (Some err)
         | Inr (snapshot, hardstate) \<Rightarrow>
             validateConsistentIndex cfg hardstate snapshot be))"

fun Verify_deferred :: "error option outcome \<Rightarrow> error option outcome" where
  "Verify_deferred (Return err) = Return err"
| "Verify_deferred (Panic r) = Panic r"
| "Verify_deferred Exit = Exit"
| "Verify_deferred Blocks = Blocks"

definition Verify :: "Collaborators \<Rightarrow> Config \<Rightarrow> error option outcome" where
  "Verify c cfg = Verify_deferred (Verify_body c cfg)"

definition VerifyIfEnabled :: "Collaborators \<Rightarrow> Config \<Rightarrow> error option outcome" where
  "VerifyIfEnabled c cfg =
     (if Getenv c ENV_VERIFY = ENV_VERIFY_ALL_VALUE then Verify c cfg else Return None)"

text \<open>\<open>MustVerifyIfEnabled\<close>: \<open>cfg.Logger.Fatal\<close> logs the error and ends the process.\<close>

definition MustVerifyIfEnabled :: "Collaborators \<Rightarrow> Config \<Rightarrow> unit outcome" where
  "MustVerifyIfEnabled c cfg =
     andThen (VerifyIfEnabled c cfg) (\<lambda>err.
       case err of
         Some e \<Rightarrow> Exit
       | None \<Rightarrow> Return ())"

section \<open>Package etcdserver: dispatch of a v2 request\<close>

text \<open>
  \<open>*v2store.Event\<close> and \<open>v2store.Watcher\<close> belong to a package outside these sources;
  only their identity matters here, so they are opaque handles.
\<close>

datatype v2store_Event = EventPtr nat

datatype v2store_Watcher = WatcherRef nat

text \<open>\<open>pb.Request\<close>, with the fields that the dispatcher reads or writes, and its value.\<close>

record RequestV2 =
  ID :: uint64
  Method :: string
  Path :: string
  Val :: string
  Wait :: bool
  Since :: uint64
  Recursive :: bool
  Sorted :: bool
  Quorum :: bool
  Stream :: bool

record Response =
  Term :: uint64
  Index :: uint64
  Event :: "v2store_Event option"
  Watcher :: "v2store_Watcher option"
  Err :: "error option"

text \<open>The composite literal \<open>Response{}\<close>: every field has its zero value.\<close>

definition empty_Response :: Response where
  "empty_Response = \<lparr>Term = 0, Index = 0, Event = None, Watcher = None, Err = None\<rparr>"

text \<open>
  A value of type \<open>interface{}\<close> as it travels through a channel of the wait table:
  nil, a \<open>Response\<close>, or a value of another dynamic type.
\<close>

datatype any = Nil | ResponseValue Response | OtherValue string

text \<open>
  Modelled from the spec: the Pending-Call Table (\<open>s.w\<close>, package wait), whose code is
  not among these sources. A table maps a request ID to the channel of its slot;
  \<open>delivered\<close> holds the value that has been sent into a channel, \<open>next_chan\<close> is
  the next unused channel. \<open>Register\<close> creates a new, empty channel
  and stores it as the slot of the ID, and fails if the ID is already registered.
  \<open>Trigger\<close> delivers the value into the slot of the ID if one exists and removes the
  slot; for an ID without a slot it does nothing. A slot is for a single use: its
  channel takes one value, and a delivery into a channel that has one already would
  queue on a channel that nobody reads, so it does not return.
\<close>

record WaitList =
  slots :: "uint64 \<rightharpoonup> nat"
  delivered :: "nat \<rightharpoonup> any"
  next_chan :: nat

definition Register :: "uint64 \<Rightarrow> WaitList \<Rightarrow> panic_value + nat \<times> WaitList" where
  "Register rid wl =
     (case slots wl rid of
        Some ch \<Rightarrow> Inl (DuplicateID rid)
      | None \<Rightarrow>
          Inr (next_chan wl,
               wl\<lparr>slots := (slots wl)(rid \<mapsto> next_chan wl),
                  delivered := (delivered wl)(next_chan wl := None),
                  next_chan := Suc (next_chan wl)\<rparr>))"

definition Trigger :: "uint64 \<Rightarrow> any \<Rightarrow> WaitList \<Rightarrow> WaitList outcome" where
  "Trigger rid x wl =
     (case slots wl rid of
        None \<Rightarrow> Return wl
      | Some ch \<Rightarrow>
          (case delivered wl ch of
             None \<Rightarrow>
               Return (wl\<lparr>slots := (slots wl)(rid := None),
                          delivered := (delivered wl)(ch \<mapsto> x)\<rparr>)
           | Some y \<Rightarrow> Blocks))"

text \<open>
  The server as the dispatcher uses it: the wait table \<open>w\<close>, the data handed to
  \<open>s.r.Propose\<close> so far (oldest first), the v2 store, the number of IDs drawn from
  \<open>reqIDGen\<close>, and the term and committed index that \<open>s.Term()\<close> and
  \<open>s.CommittedIndex()\<close> read.
\<close>

record 'st EtcdServer =
  w :: WaitList
  proposed :: "string list"
  v2store :: 'st
  reqIDGen :: nat
  raft_term :: uint64
  committedIndex :: uint64

datatype ShouldApplyV3 = ApplyBoth | ApplyV2storeOnly

text \<open>
  What the dispatcher calls outside these sources, taken as parameters: the generated
  \<open>Marshal\<close> of \<open>pb.Request\<close>, \<open>s.parseProposeCtxErr\<close>, the store's \<open>Get\<close> and
  \<open>Watch\<close> and the four methods of the v2 applier (each may change the store), and the
  sequence of IDs that \<open>reqIDGen.Next\<close> hands out.
\<close>

record 'st Externals =
  Marshal :: "RequestV2 \<Rightarrow> string \<times> error option"
  parseProposeCtxErr :: "error \<Rightarrow> nat \<Rightarrow> error"
  store_Get :: "string \<Rightarrow> bool \<Rightarrow> bool \<Rightarrow> 'st \<Rightarrow> (v2store_Event option \<times> error option) \<times> 'st"
  store_Watch :: "string \<Rightarrow> bool \<Rightarrow> bool \<Rightarrow> uint64 \<Rightarrow> 'st
                    \<Rightarrow> (v2store_Watcher option \<times> error option) \<times> 'st"
  applier_Post :: "RequestV2 \<Rightarrow> 'st \<Rightarrow> Response \<times> 'st"
  applier_Put :: "RequestV2 \<Rightarrow> ShouldApplyV3 \<Rightarrow> 'st \<Rightarrow> Response \<times> 'st"
  applier_Delete :: "RequestV2 \<Rightarrow> 'st \<Rightarrow> Response \<times> 'st"
  applier_QGet :: "RequestV2 \<Rightarrow> 'st \<Rightarrow> Response \<times> 'st"
  id_sequence :: "nat \<Rightarrow> uint64"

text \<open>
  The caller's \<open>context.Context\<close> together with what happens while the caller waits in
  the \<open>select\<close> of \<open>processRaftRequest\<close>: the term and the committed index that the raft
  loop stores in the server meanwhile (if it stores any), whether the apply loop
  triggers the caller's ID before the \<open>select\<close> is resolved and with which value, which
  case of the \<open>select\<close> is taken (the context case with the value of \<open>ctx.Err()\<close>;
  \<open>CaseNone\<close> when no case ever becomes ready), and the time that \<open>time.Now()\<close> reads.
\<close>

datatype select_case = CaseCh | CaseCtxDone error | CaseStopping | CaseNone

record Context =
  advanced :: "(uint64 \<times> uint64) option"
  applied :: "any option"
  selected :: select_case
  now :: nat

text \<open>\<open>RequestV2Handler\<close>: the interface as a record of its six methods.\<close>

record ('c, 's) RequestV2Handler =
  Post :: "'c \<Rightarrow> RequestV2 \<Rightarrow> 's \<Rightarrow> (Response \<times> error option) outcome \<times> 's"
  Put :: "'c \<Rightarrow> RequestV2 \<Rightarrow> 's \<Rightarrow> (Response \<times> error option) outcome \<times> 's"
  Delete :: "'c \<Rightarrow> RequestV2 \<Rightarrow> 's \<Rightarrow> (Response \<times> error option) outcome \<times> 's"
  QGet :: "'c \<Rightarrow> RequestV2 \<Rightarrow> 's \<Rightarrow> (Response \<times> error option) outcome \<times> 's"
  Get :: "'c \<Rightarrow> RequestV2 \<Rightarrow> 's \<Rightarrow> (Response \<times> error option) outcome \<times> 's"
  Head :: "'c \<Rightarrow> RequestV2 \<Rightarrow> 's \<Rightarrow> (Response \<times> error option) outcome \<times> 's"

subsection \<open>The methods of \<open>reqV2HandlerStore\<close>, on the store\<close>

definition reqV2HandlerStore_Post ::
  "'st Externals \<Rightarrow> 'c \<Rightarrow> RequestV2 \<Rightarrow> 'st \<Rightarrow> (Response \<times> error option) outcome \<times> 'st" where
  "reqV2HandlerStore_Post x ctx r st =
     (case applier_Post x r st of (resp, st') \<Rightarrow> (Return (resp, None), st'))"

definition reqV2HandlerStore_Put ::
  "'st Externals \<Rightarrow> 'c \<Rightarrow> RequestV2 \<Rightarrow> 'st \<Rightarrow> (Response \<times> error option) outcome \<times> 'st" where
  "reqV2HandlerStore_Put x ctx r st =
     (case applier_Put x r ApplyBoth st of (resp, st') \<Rightarrow> (Return (resp, None), st'))"

definition reqV2HandlerStore_Delete ::
  "'st Externals \<Rightarrow> 'c \<Rightarrow> RequestV2 \<Rightarrow> 'st \<Rightarrow> (Response \<times> error option) outcome \<times> 'st" where
  "reqV2HandlerStore_Delete x ctx r st =
     (case applier_Delete x r st of (resp, st') \<Rightarrow> (Return (resp, None), st'))"

definition reqV2HandlerStore_QGet ::
  "'st Externals \<Rightarrow> 'c \<Rightarrow> RequestV2 \<Rightarrow> 'st \<Rightarrow> (Response \<times> error option) outcome \<times> 'st" where
  "reqV2HandlerStore_QGet x ctx r st =
     (case applier_QGet x r st of (resp, st') \<Rightarrow> (Return (resp, None), st'))"

definition reqV2HandlerStore_Get ::
  "'st Externals \<Rightarrow> 'c \<Rightarrow> RequestV2 \<Rightarrow> 'st \<Rightarrow> (Response \<times> error option) outcome \<times> 'st" where
  "reqV2HandlerStore_Get x ctx r st =
     (if Wait r then
        (case store_Watch x (Path r) (Recursive r) (Stream r) (Since r) st of
           ((wc, err), st') \<Rightarrow> (Return (empty_Response\<lparr>Watcher := wc\<rparr>, err), st'))
      else
        (case store_Get x (Path r) (Recursive r) (Sorted r) st of
           ((ev, err), st') \<Rightarrow> (Return (empty_Response\<lparr>Event := ev\<rparr>, err), st')))"

definition reqV2HandlerStore_Head ::
  "'st Externals \<Rightarrow> 'c \<Rightarrow> RequestV2 \<Rightarrow> 'st \<Rightarrow> (Response \<times> error option) outcome \<times> 'st" where
  "reqV2HandlerStore_Head x ctx r st =
     (case store_Get x (Path r) (Recursive r) (Sorted r) st of
        ((ev, err), st') \<Rightarrow> (Return (empty_Response\<lparr>Event := ev\<rparr>, err), st'))"

definition NewStoreRequestV2Handler :: "'st Externals \<Rightarrow> ('c, 'st) RequestV2Handler" where
  "NewStoreRequestV2Handler x =
     \<lparr>Post = reqV2HandlerStore_Post x, Put = reqV2HandlerStore_Put x,
      Delete = reqV2HandlerStore_Delete x, QGet = reqV2HandlerStore_QGet x,
      Get = reqV2HandlerStore_Get x, Head = reqV2HandlerStore_Head x\<rparr>"

subsection \<open>The methods of \<open>reqV2HandlerEtcdServer\<close>, on the server\<close>

text \<open>
  What the other goroutines of the server do to it while the caller of
  \<open>processRaftRequest\<close> waits: the raft loop stores a new term and committed index,
  and the apply loop triggers the caller's ID. A trigger of the apply loop that does
  not return leaves the table as it is.
\<close>

definition meanwhile :: "Context \<Rightarrow> uint64 \<Rightarrow> 'st EtcdServer \<Rightarrow> 'st EtcdServer" where
  "meanwhile ctx rid s =
     (let s' = (case advanced ctx of
                  None \<Rightarrow> s
                | Some (t, i) \<Rightarrow> s\<lparr>raft_term := t, committedIndex := i\<rparr>)
      in case applied ctx of
           None \<Rightarrow> s'
         | Some v \<Rightarrow>
             (case Trigger rid v (w s') of
                Return w' \<Rightarrow> s'\<lparr>w := w'\<rparr>
              | Panic p \<Rightarrow> s'
              | Exit \<Rightarrow> s'
              | Blocks \<Rightarrow> s'))"

text \<open>
  \<open>processRaftRequest\<close>. After \<open>Register\<close> and \<open>Propose\<close> the caller waits, and the
  rest of the server goes on before the \<open>select\<close> is resolved. The channel case can be
  taken only when a value has been sent into the channel; the type assertion
  \<open>x.(Response)\<close> panics on any other value. In the context case the caller returns
  only when its own \<open>Trigger\<close> has returned. The line printed in the stopping case is
  an effect outside the model.
\<close>

definition processRaftRequest ::
  "'st Externals \<Rightarrow> Context \<Rightarrow> RequestV2 \<Rightarrow> 'st EtcdServer
     \<Rightarrow> (Response \<times> error option) outcome \<times> 'st EtcdServer" where
  "processRaftRequest x ctx r s =
     (case Marshal x r of
        (data, Some err) \<Rightarrow> (Return (empty_Response, Some err), s)
      | (data, None) \<Rightarrow>
          (case Register (ID r) (w s) of
             Inl p \<Rightarrow> (Panic p, s)
           | Inr (ch, w1) \<Rightarrow>
               (let s1 = s\<lparr>w := w1\<rparr>;
                    start = now ctx;
                    s2 = s1\<lparr>proposed := proposed s1 @ [data]\<rparr>;
                    s3 = meanwhile ctx (ID r) s2
                in case selected ctx of
                     CaseCh \<Rightarrow>
                       (case delivered (w s3) ch of
                          None \<Rightarrow> (Blocks, s3)
                        | Some v \<Rightarrow>
                            (case v of
                               ResponseValue resp \<Rightarrow> (Return (resp, Err resp), s3)
                             | Nil \<Rightarrow> (Panic InterfaceConversion, s3)
                             | OtherValue t \<Rightarrow> (Panic InterfaceConversion, s3)))
                   | CaseCtxDone e \<Rightarrow>
                       (case Trigger (ID r) Nil (w s3) of
                          Return w' \<Rightarrow>
                            (Return (empty_Response, Some (parseProposeCtxErr x e start)),
                             s3\<lparr>w := w'\<rparr>)
                        | Panic p \<Rightarrow> (Panic p, s3)
                        | Exit \<Rightarrow> (Exit, s3)
                        | Blocks \<Rightarrow> (Blocks, s3))
                   | CaseStopping \<Rightarrow> (Return (empty_Response, Some ErrStopped), s3)
                   | CaseNone \<Rightarrow> (Blocks, s3))))"

text \<open>The embedded \<open>reqV2HandlerStore\<close> works on the store of the server.\<close>

definition on_v2store ::
  "('st \<Rightarrow> 'a \<times> 'st) \<Rightarrow> 'st EtcdServer \<Rightarrow> 'a \<times> 'st EtcdServer" where
  "on_v2store f s = (case f (v2store s) of (res, st') \<Rightarrow> (res, s\<lparr>v2store := st'\<rparr>))"

definition reqV2HandlerEtcdServer ::
  "'st Externals \<Rightarrow> (Context, 'st EtcdServer) RequestV2Handler" where
  "reqV2HandlerEtcdServer x =
     \<lparr>Post = processRaftRequest x, Put = processRaftRequest x,
      Delete = processRaftRequest x, QGet = processRaftRequest x,
      Get = (\<lambda>ctx r. on_v2store (reqV2HandlerStore_Get x ctx r)),
      Head = (\<lambda>ctx r. on_v2store (reqV2HandlerStore_Head x ctx r))\<rparr>"

subsection \<open>\<open>Handle\<close> and \<open>Do\<close>\<close>

text \<open>
  \<open>Handle\<close> has a pointer receiver and may write to the request, so the request as it
  is after the call is part of the result.
\<close>

definition Handle ::
  "RequestV2 \<Rightarrow> 'c \<Rightarrow> ('c, 's) RequestV2Handler \<Rightarrow> 's
     \<Rightarrow> RequestV2 \<times> (Response \<times> error option) outcome \<times> 's" where
  "Handle r0 ctx v2api s =
     (let r = (if Method r0 = ''GET'' \<and> Quorum r0 then r0\<lparr>Method := ''QGET''\<rparr> else r0) in
      if Method r = ''POST'' then (r, Post v2api ctx r s)
      else if Method r = ''PUT'' then (r, Put v2api ctx r s)
      else if Method r = ''DELETE'' then (r, Delete v2api ctx r s)
      else if Method r = ''QGET'' then (r, QGet v2api ctx r s)
      else if Method r = ''GET'' then (r, Get v2api ctx r s)
      else if Method r = ''HEAD'' then (r, Head v2api ctx r s)
      else (r, Return (empty_Response, Some ErrUnknownMethod), s))"

definition reqIDGen_Next :: "'st Externals \<Rightarrow> 'st EtcdServer \<Rightarrow> uint64 \<times> 'st EtcdServer" where
  "reqIDGen_Next x s = (id_sequence x (reqIDGen s), s\<lparr>reqIDGen := Suc (reqIDGen s)\<rparr>)"

text \<open>
  \<open>Do\<close> receives the request by value, so the ID is written to its own copy. The
  handler's answer is overwritten with the term and the committed index that the
  server has when \<open>Handle\<close> is back.
\<close>

definition Do ::
  "'st Externals \<Rightarrow> Context \<Rightarrow> RequestV2 \<Rightarrow> 'st EtcdServer
     \<Rightarrow> (Response \<times> error option) outcome \<times> 'st EtcdServer" where
  "Do x ctx r0 s0 =
     (case reqIDGen_Next x s0 of
        (rid, s) \<Rightarrow>
          (let r = r0\<lparr>ID := rid\<rparr>;
               h = reqV2HandlerEtcdServer x
           in case Handle r ctx h s of
                (rp, out, s') \<Rightarrow>
                  (andThen out (\<lambda>(resp, err).
                     Return (resp\<lparr>Term := raft_term s', Index := committedIndex s'\<rparr>, err)),
                   s')))"

section \<open>Concrete inputs\<close>

text \<open>A data directory of a healthy member, and six damaged ones.\<close>

definition dir_cfg :: Config where
  "dir_cfg = \<lparr>DataDir = ''/var/lib/etcd'', ExactIndex = False\<rparr>"

definition healthy_dir :: Collaborators where
  "healthy_dir =
     \<lparr>environ = [''ETCD_VERIFY'' \<mapsto> ''all''],
      ToBackendFileName = (\<lambda>d. d @ ''/member/snap/db''),
      ToWalDir = (\<lambda>d. d @ ''/member/wal''),
      backend_New =
        (\<lambda>path. Inr \<lparr>meta_bucket = True, consistent_index = 10, backend_term = 2\<rparr>),
      ValidSnapshotEntries =
        (\<lambda>walDir. Inr ([\<lparr>Snapshot.Index = 0, Term = 0\<rparr>, \<lparr>Snapshot.Index = 5, Term = 1\<rparr>], None)),
      wal_Verify =
        (\<lambda>walDir snap. Inr (Inr \<lparr>HardState.Term = 2, Vote = 1, Commit = 10\<rparr>))\<rparr>"

definition no_snapshot_dir :: Collaborators where
  "no_snapshot_dir = healthy_dir\<lparr>ValidSnapshotEntries := (\<lambda>walDir. Inr ([], None))\<rparr>"

definition unreadable_wal_dir :: Collaborators where
  "unreadable_wal_dir =
     healthy_dir\<lparr>ValidSnapshotEntries :=
       (\<lambda>walDir. Inr ([], Some (ForeignError ''wal: file not found'')))\<rparr>"

definition broken_backend_dir :: Collaborators where
  "broken_backend_dir =
     healthy_dir\<lparr>backend_New := (\<lambda>path. Inl (PanicValue ''failed to open database''))\<rparr>"



definition no_meta_bucket_dir :: Collaborators where
  "no_meta_bucket_dir =
     healthy_dir\<lparr>backend_New :=
       (\<lambda>path. Inr \<lparr>meta_bucket = False, consistent_index = 0, backend_term = 0\<rparr>)\<rparr>"

text \<open>A server with an empty wait table, collaborators, a request and five ways to wait.\<close>

definition sample_externals :: "nat Externals" where
  "sample_externals =
     \<lparr>Marshal = (\<lambda>r. (Method r @ '' '' @ Path r, None)),
      parseProposeCtxErr = (\<lambda>err start. ForeignError ''etcdserver: request timed out''),
      store_Get = (\<lambda>path recursive sorted st. ((Some (EventPtr st), None), st)),
      store_Watch = (\<lambda>path recursive stream since st. ((Some (WatcherRef st), None), Suc st)),
      applier_Post = (\<lambda>r st. (empty_Response, Suc st)),
      applier_Put = (\<lambda>r both st. (empty_Response, Suc st)),
      applier_Delete = (\<lambda>r st. (empty_Response, Suc st)),
      applier_QGet = (\<lambda>r st. (empty_Response, st)),
      id_sequence = (\<lambda>n. of_nat n + 1)\<rparr>"

definition idle_server :: "nat EtcdServer" where
  "idle_server =
     \<lparr>w = \<lparr>slots = Map.empty, delivered = Map.empty, next_chan = 0\<rparr>,
      proposed = [], v2store = 0, reqIDGen = 0, raft_term = 3, committedIndex = 42\<rparr>"

definition put_request :: RequestV2 where
  "put_request =
     \<lparr>ID = 7, Method = ''PUT'', Path = ''/a'', Val = ''1'', Wait = False, Since = 0,
      Recursive = False, Sorted = False, Quorum = False, Stream = False\<rparr>"

definition applied_response :: Response where
  "applied_response =
     \<lparr>Term = 0, Index = 0, Event = Some (EventPtr 1), Watcher = None, Err = None\<rparr>"

definition delivered_ctx :: Context where
  "delivered_ctx =
     \<lparr>advanced = Some (4, 43), applied = Some (ResponseValue applied_response),
      selected = CaseCh, now = 100\<rparr>"

definition cancelled_ctx :: Context where
  "cancelled_ctx =
     \<lparr>advanced = None, applied = None,
      selected = CaseCtxDone (ForeignError ''context canceled''), now = 100\<rparr>"

definition stopping_ctx :: Context where
  "stopping_ctx = \<lparr>advanced = None, applied = None, selected = CaseStopping, now = 100\<rparr>"

definition raced_ctx :: Context where
  "raced_ctx =
     \<lparr>advanced = Some (4, 43), applied = Some (ResponseValue applied_response),
      selected = CaseCtxDone (ForeignError ''context deadline exceeded''), now = 100\<rparr>"


section \<open>The consistent-index step\<close>

lemma validateConsistentIndex_readable:
  "meta_bucket be \<Longrightarrow>
   validateConsistentIndex cfg hardstate snapshot be =
     Return (first_violated (spec_invariants cfg hardstate snapshot be))"
  by (simp add: validateConsistentIndex_def ReadConsistentIndex_def spec_invariants_def
        not_less [symmetric])

lemma validateConsistentIndex_no_meta_bucket:
  "\<not> meta_bucket be \<Longrightarrow> validateConsistentIndex cfg hardstate snapshot be = Exit"
  by (simp add: validateConsistentIndex_def ReadConsistentIndex_def)

lemma validateConsistentIndex_first_violated:
  "validateConsistentIndex cfg hardstate snapshot be =
     (if meta_bucket be
      then Return (first_violated (spec_invariants cfg hardstate snapshot be))
      else Exit)"
  by (simp add: validateConsistentIndex_readable validateConsistentIndex_no_meta_bucket)

lemma first_violated_None_iff:
  "first_violated (spec_invariants cfg hardstate snapshot be) = None \<longleftrightarrow>
     Snapshot.Index snapshot \<le> consistent_index be \<and>
     consistent_index be \<le> HardState.Commit hardstate \<and>
     backend_term be \<le> HardState.Term hardstate \<and>
     (ExactIndex cfg \<longrightarrow>
        consistent_index be = HardState.Commit hardstate \<and>
        backend_term be = HardState.Term hardstate)"
  by (auto simp add: spec_invariants_def)

lemma validateConsistentIndex_None_iff:
  "validateConsistentIndex cfg hardstate snapshot be = Return None \<longleftrightarrow>
     meta_bucket be \<and>
     Snapshot.Index snapshot \<le> consistent_index be \<and>
     consistent_index be \<le> HardState.Commit hardstate \<and>
     backend_term be \<le> HardState.Term hardstate \<and>
     (ExactIndex cfg \<longrightarrow>
        consistent_index be = HardState.Commit hardstate \<and>
        backend_term be = HardState.Term hardstate)"
  using first_violated_None_iff [of cfg hardstate snapshot be]
  by (simp add: validateConsistentIndex_first_violated)

text \<open>
  An index 8 below the snapshot index 9 is reported as such, with both values.
\<close>

lemma validateConsistentIndex_below_snapshot:
  "validateConsistentIndex \<lparr>DataDir = ''/var/lib/etcd'', ExactIndex = False\<rparr>
     \<lparr>HardState.Term = 2, Vote = 1, Commit = 10\<rparr> \<lparr>Snapshot.Index = 9, Term = 1\<rparr>
     \<lparr>meta_bucket = True, consistent_index = 8, backend_term = 2\<rparr> =
   Return (Some (ErrIndexBelowSnapshot 8 9))"
  by (simp add: validateConsistentIndex_def ReadConsistentIndex_def)

text \<open>
  C1, as amended. For all values of the backend's consistent index I and term T, of the
  hard state's commit C and term HT and of the snapshot index S, the consistent-index
  step succeeds iff S \<le> I \<le> C and T \<le> HT and, in exact mode, additionally I = C and
  T = HT. Its answer is that of evaluating the invariants in the order exact index
  equality, exact term equality, index \<le> commit, term \<le> hard-state term, index \<ge>
  snapshot index, and returning the error that names the first violated one with both
  observed values. (I and T are there to be compared when the backend has the meta
  bucket they are read from; without it the read ends the process before any
  comparison.)
\<close>

theorem validateConsistentIndex_spec:
  "(validateConsistentIndex cfg hardstate snapshot be = Return None \<longleftrightarrow>
      meta_bucket be \<and>
      Snapshot.Index snapshot \<le> consistent_index be \<and>
      consistent_index be \<le> HardState.Commit hardstate \<and>
      backend_term be \<le> HardState.Term hardstate \<and>
      (ExactIndex cfg \<longrightarrow>
         consistent_index be = HardState.Commit hardstate \<and>
         backend_term be = HardState.Term hardstate)) \<and>
   validateConsistentIndex cfg hardstate snapshot be =
     (if meta_bucket be
      then Return (first_violated (spec_invariants cfg hardstate snapshot be))
      else Exit)"
  using validateConsistentIndex_None_iff validateConsistentIndex_first_violated
  by blast

text \<open>
  The theorem at an exact backup (index 10 = commit 10, term 2 = term 2, snapshot at 5),
  and at an exact-mode directory whose index 10 is behind the commit 12.
\<close>

theorem validateConsistentIndex_spec_witness:
  "validateConsistentIndex \<lparr>DataDir = ''/backup'', ExactIndex = True\<rparr>
     \<lparr>HardState.Term = 2, Vote = 1, Commit = 10\<rparr> \<lparr>Snapshot.Index = 5, Term = 1\<rparr>
     \<lparr>meta_bucket = True, consistent_index = 10, backend_term = 2\<rparr> = Return None \<and>
   validateConsistentIndex \<lparr>DataDir = ''/backup'', ExactIndex = True\<rparr>
     \<lparr>HardState.Term = 2, Vote = 1, Commit = 12\<rparr> \<lparr>Snapshot.Index = 5, Term = 1\<rparr>
     \<lparr>meta_bucket = True, consistent_index = 10, backend_term = 2\<rparr> =
     Return (Some (ErrIndexNotExact 10 12))"
  using
    validateConsistentIndex_spec [of "\<lparr>DataDir = ''/backup'', ExactIndex = True\<rparr>"
      "\<lparr>HardState.Term = 2, Vote = 1, Commit = 10\<rparr>" "\<lparr>Snapshot.Index = 5, Term = 1\<rparr>"
      "\<lparr>meta_bucket = True, consistent_index = 10, backend_term = 2\<rparr>"]
    validateConsistentIndex_spec [of "\<lparr>DataDir = ''/backup'', ExactIndex = True\<rparr>"
      "\<lparr>HardState.Term = 2, Vote = 1, Commit = 12\<rparr>" "\<lparr>Snapshot.Index = 5, Term = 1\<rparr>"
      "\<lparr>meta_bucket = True, consistent_index = 10, backend_term = 2\<rparr>"]
  by (simp add: spec_invariants_def)

text \<open>
  C1 as stated fails outside exact mode: with S = 0 \<le> I = 5 \<le> C = 10 the step still
  fails when the backend's term 3 is above the hard state's term 2.
\<close>

theorem validateConsistentIndex_term_counterexample:
  "validateConsistentIndex \<lparr>DataDir = ''/var/lib/etcd'', ExactIndex = False\<rparr>
     \<lparr>HardState.Term = 2, Vote = 1, Commit = 10\<rparr> \<lparr>Snapshot.Index = 0, Term = 0\<rparr>
     \<lparr>meta_bucket = True, consistent_index = 5, backend_term = 3\<rparr> =
     Return (Some (ErrTermAboveHardState 3 2)) \<and>
   (0 :: uint64) \<le> 5 \<and> (5 :: uint64) \<le> 10"
  by (simp add: validateConsistentIndex_def ReadConsistentIndex_def)

section \<open>Reading the write-ahead log, and \<open>Verify\<close>\<close>

lemma call_eq_Return [simp]: "call m = Return v \<longleftrightarrow> m = Inr v"
  by (cases m) auto

lemma call_eq_Panic [simp]: "call m = Panic p \<longleftrightarrow> m = Inl p"
  by (cases m) auto

lemma call_not_Exit [simp]: "call m \<noteq> Exit" "call m \<noteq> Blocks"
  by (cases m; simp)+

lemma andThen_eq_Return:
  "andThen m f = Return v \<longleftrightarrow> (\<exists>u. m = Return u \<and> f u = Return v)"
  by (cases m) auto

lemma andThen_eq_Panic:
  "andThen m f = Panic p \<longleftrightarrow> m = Panic p \<or> (\<exists>u. m = Return u \<and> f u = Panic p)"
  by (cases m) auto

lemma andThen_eq_Exit:
  "andThen m f = Exit \<longleftrightarrow> m = Exit \<or> (\<exists>v. m = Return v \<and> f v = Exit)"
  by (cases m) auto


lemma validateWal_reader_error:
  "ValidSnapshotEntries c (ToWalDir c (DataDir cfg)) = Inr (walSnaps, Some e) \<Longrightarrow>
   validateWal c cfg = Return (Inl e)"
  by (simp add: validateWal_def)






lemma Verify_deferred_id: "Verify_deferred out = out"
  by (cases out) auto

lemma Verify_backend_panic:
  "backend_New c (ToBackendFileName c (DataDir cfg)) = Inl p \<Longrightarrow> Verify c cfg = Panic p"
  by (simp add: Verify_def Verify_body_def)

lemma Verify_with_backend:
  "backend_New c (ToBackendFileName c (DataDir cfg)) = Inr be \<Longrightarrow>
   Verify c cfg =
     andThen (validateWal c cfg) (\<lambda>res.
       case res of
         Inl err \<Rightarrow> Return (Some err)
       | Inr (snapshot, hardstate) \<Rightarrow> validateConsistentIndex cfg hardstate snapshot be)"
  by (simp add: Verify_def Verify_body_def Verify_deferred_id)

lemma Verify_reader_error:
  "backend_New c (ToBackendFileName c (DataDir cfg)) = Inr be \<Longrightarrow>
   ValidSnapshotEntries c (ToWalDir c (DataDir cfg)) = Inr (walSnaps, Some e) \<Longrightarrow>
   Verify c cfg = Return (Some e)"
  by (simp add: Verify_with_backend validateWal_reader_error)


lemma Verify_healthy: "Verify healthy_dir dir_cfg = Return None"
  by (simp add: Verify_def Verify_body_def validateWal_def healthy_dir_def dir_cfg_def
        validateConsistentIndex_def ReadConsistentIndex_def)

lemma Verify_no_meta_bucket: "Verify no_meta_bucket_dir dir_cfg = Exit"
  by (simp add: Verify_def Verify_body_def validateWal_def no_meta_bucket_dir_def
        healthy_dir_def dir_cfg_def validateConsistentIndex_def ReadConsistentIndex_def)



text \<open>
  C6 at a write-ahead log for which the reader returns no snapshot entry and no error:
  \<open>validateWal\<close>, and with it \<open>Verify\<close>, panics with an index out of range instead of
  returning a structural error.
\<close>

theorem validateWal_no_snapshot_panics:
  "validateWal no_snapshot_dir dir_cfg = Panic (IndexOutOfRange (- 1)) \<and>
   Verify no_snapshot_dir dir_cfg = Panic (IndexOutOfRange (- 1))"
  by (simp add: Verify_def Verify_body_def validateWal_def no_snapshot_dir_def healthy_dir_def)


text \<open>
  C8, as amended. \<open>VerifyIfEnabled\<close> runs \<open>Verify\<close> if and only if the variable
  \<open>ETCD_VERIFY\<close> has the value \<open>all\<close>. For every other value, unset included, it
  returns nil whatever the backend and the write-ahead log of the data directory are:
  they are not read. With \<open>MustVerifyIfEnabled\<close> the process ends exactly when the
  enabled verification returns a non-nil error or ends the process itself; a panic of
  the enabled verification leaves \<open>MustVerifyIfEnabled\<close> as the same panic, and in
  every other case \<open>MustVerifyIfEnabled\<close> returns.
\<close>

theorem VerifyIfEnabled_toggle:
  "(Getenv c ''ETCD_VERIFY'' = ''all'' \<longrightarrow> VerifyIfEnabled c cfg = Verify c cfg) \<and>
   (Getenv c ''ETCD_VERIFY'' \<noteq> ''all'' \<longrightarrow>
      (\<forall>b v wv. VerifyIfEnabled
                  (c\<lparr>backend_New := b, ValidSnapshotEntries := v, wal_Verify := wv\<rparr>) cfg =
                Return None)) \<and>
   (MustVerifyIfEnabled c cfg = Exit \<longleftrightarrow>
      Getenv c ''ETCD_VERIFY'' = ''all'' \<and>
      ((\<exists>e. Verify c cfg = Return (Some e)) \<or> Verify c cfg = Exit)) \<and>
   (\<forall>p. MustVerifyIfEnabled c cfg = Panic p \<longleftrightarrow>
      Getenv c ''ETCD_VERIFY'' = ''all'' \<and> Verify c cfg = Panic p) \<and>
   (MustVerifyIfEnabled c cfg = Return () \<longleftrightarrow>
      Getenv c ''ETCD_VERIFY'' \<noteq> ''all'' \<or> Verify c cfg = Return None)"
proof -
  have on: "Getenv c ''ETCD_VERIFY'' = ''all'' \<longrightarrow> VerifyIfEnabled c cfg = Verify c cfg"
    by (simp add: VerifyIfEnabled_def ENV_VERIFY_def ENV_VERIFY_ALL_VALUE_def)
  have off: "Getenv c ''ETCD_VERIFY'' \<noteq> ''all'' \<longrightarrow>
      (\<forall>b v wv. VerifyIfEnabled
                  (c\<lparr>backend_New := b, ValidSnapshotEntries := v, wal_Verify := wv\<rparr>) cfg =
                Return None)"
    by (simp add: VerifyIfEnabled_def ENV_VERIFY_def ENV_VERIFY_ALL_VALUE_def Getenv_def)
  have must_exit: "MustVerifyIfEnabled c cfg = Exit \<longleftrightarrow>
      Getenv c ''ETCD_VERIFY'' = ''all'' \<and>
      ((\<exists>e. Verify c cfg = Return (Some e)) \<or> Verify c cfg = Exit)"
    by (auto simp add: MustVerifyIfEnabled_def VerifyIfEnabled_def ENV_VERIFY_def
          ENV_VERIFY_ALL_VALUE_def andThen_eq_Exit split: option.splits)
  have must_panic: "\<forall>p. MustVerifyIfEnabled c cfg = Panic p \<longleftrightarrow>
      Getenv c ''ETCD_VERIFY'' = ''all'' \<and> Verify c cfg = Panic p"
    by (auto simp add: MustVerifyIfEnabled_def VerifyIfEnabled_def ENV_VERIFY_def
          ENV_VERIFY_ALL_VALUE_def andThen_eq_Panic split: option.splits)
  have must_return: "MustVerifyIfEnabled c cfg = Return () \<longleftrightarrow>
      Getenv c ''ETCD_VERIFY'' \<noteq> ''all'' \<or> Verify c cfg = Return None"
    by (auto simp add: MustVerifyIfEnabled_def VerifyIfEnabled_def ENV_VERIFY_def
          ENV_VERIFY_ALL_VALUE_def andThen_eq_Return split: option.splits)
  from on off must_exit must_panic must_return show ?thesis
    by blast
qed

text \<open>
  The toggle unset, set to \<open>off\<close>, and set to \<open>all\<close> at an unreadable log, at a
  healthy directory, at a backend that cannot be opened and at one without meta bucket.
\<close>

theorem VerifyIfEnabled_toggle_witness:
  "VerifyIfEnabled (unreadable_wal_dir\<lparr>environ := Map.empty\<rparr>) dir_cfg = Return None \<and>
   VerifyIfEnabled (unreadable_wal_dir\<lparr>environ := [''ETCD_VERIFY'' \<mapsto> ''off'']\<rparr>) dir_cfg =
     Return None \<and>
   MustVerifyIfEnabled unreadable_wal_dir dir_cfg = Exit \<and>
   MustVerifyIfEnabled healthy_dir dir_cfg = Return () \<and>
   MustVerifyIfEnabled broken_backend_dir dir_cfg =
     Panic (PanicValue ''failed to open database'') \<and>
   MustVerifyIfEnabled no_meta_bucket_dir dir_cfg = Exit"
  using VerifyIfEnabled_toggle [of "unreadable_wal_dir\<lparr>environ := Map.empty\<rparr>" dir_cfg]
    VerifyIfEnabled_toggle
      [of "unreadable_wal_dir\<lparr>environ := [''ETCD_VERIFY'' \<mapsto> ''off'']\<rparr>" dir_cfg]
    VerifyIfEnabled_toggle [of unreadable_wal_dir dir_cfg]
    VerifyIfEnabled_toggle [of healthy_dir dir_cfg]
    VerifyIfEnabled_toggle [of broken_backend_dir dir_cfg]
    VerifyIfEnabled_toggle [of no_meta_bucket_dir dir_cfg]
    Verify_reader_error [of unreadable_wal_dir dir_cfg]
    Verify_healthy Verify_no_meta_bucket
    Verify_backend_panic [of broken_backend_dir dir_cfg]
  by (simp add: Getenv_def unreadable_wal_dir_def broken_backend_dir_def
        no_meta_bucket_dir_def healthy_dir_def)

text \<open>
  C8 as stated fails at a backend without meta bucket: with the toggle set to \<open>all\<close>
  the process ends under \<open>MustVerifyIfEnabled\<close> although the verification has not
  returned an error; it has not returned at all.
\<close>

theorem MustVerifyIfEnabled_no_meta_bucket_counterexample:
  "Getenv no_meta_bucket_dir ''ETCD_VERIFY'' = ''all'' \<and>
   MustVerifyIfEnabled no_meta_bucket_dir dir_cfg = Exit \<and>
   \<not> returns (Verify no_meta_bucket_dir dir_cfg)"
  by (simp add: MustVerifyIfEnabled_def VerifyIfEnabled_def ENV_VERIFY_def
        ENV_VERIFY_ALL_VALUE_def Getenv_def Verify_no_meta_bucket)
    (simp add: no_meta_bucket_dir_def healthy_dir_def)

section \<open>The wait table and \<open>processRaftRequest\<close>\<close>

lemma Register_fresh:
  "slots wl rid = None \<Longrightarrow>
   Register rid wl =
     Inr (next_chan wl,
          wl\<lparr>slots := (slots wl)(rid \<mapsto> next_chan wl),
             delivered := (delivered wl)(next_chan wl := None),
             next_chan := Suc (next_chan wl)\<rparr>)"
  by (simp add: Register_def)

lemma Trigger_absent: "slots wl rid = None \<Longrightarrow> Trigger rid v wl = Return wl"
  by (simp add: Trigger_def)

lemma Trigger_empty_slot:
  "slots wl rid = Some ch \<Longrightarrow> delivered wl ch = None \<Longrightarrow>
   Trigger rid v wl =
     Return (wl\<lparr>slots := (slots wl)(rid := None), delivered := (delivered wl)(ch \<mapsto> v)\<rparr>)"
  by (simp add: Trigger_def)

text \<open>
  After a registration the first trigger on the ID returns, with the slot removed and
  the value in the channel; a second trigger on the same ID returns as well and finds
  the table as the first one left it.
\<close>

lemma Trigger_twice_after_Register:
  assumes "slots wl rid = None"
  shows "\<exists>ch wl0 wl1.
           Register rid wl = Inr (ch, wl0) \<and>
           Trigger rid v wl0 = Return wl1 \<and>
           Trigger rid v' wl1 = Return wl1 \<and>
           slots wl1 rid = None \<and>
           delivered wl1 ch = Some v"
  using assms by (simp add: Register_fresh Trigger_empty_slot Trigger_absent)

lemma meanwhile_frame:
  "proposed (meanwhile ctx rid s) = proposed s \<and> v2store (meanwhile ctx rid s) = v2store s \<and>
   reqIDGen (meanwhile ctx rid s) = reqIDGen s"
  by (simp add: meanwhile_def Let_def split: option.splits outcome.splits prod.splits)


lemma meanwhile_w:
  "w (meanwhile ctx rid s) =
     (case applied ctx of
        None \<Rightarrow> w s
      | Some v \<Rightarrow> (case Trigger rid v (w s) of Return w' \<Rightarrow> w' | Panic p \<Rightarrow> w s
                    | Exit \<Rightarrow> w s | Blocks \<Rightarrow> w s))"
  by (simp add: meanwhile_def Let_def split: option.splits outcome.splits prod.splits)

text \<open>
  The table when the \<open>select\<close> is resolved, for a request that could be marshalled and
  whose ID was not registered: the slot is there with an empty channel, or the apply
  loop has removed it and its value is in the channel.
\<close>

lemma table_at_select:
  assumes "slots wl rid = None"
  shows "w (meanwhile ctx rid
            (s\<lparr>w := wl\<lparr>slots := (slots wl)(rid \<mapsto> next_chan wl),
                        delivered := (delivered wl)(next_chan wl := None),
                        next_chan := Suc (next_chan wl)\<rparr>,
               proposed := ps\<rparr>)) =
         (case applied ctx of
            None \<Rightarrow> wl\<lparr>slots := (slots wl)(rid \<mapsto> next_chan wl),
                       delivered := (delivered wl)(next_chan wl := None),
                       next_chan := Suc (next_chan wl)\<rparr>
          | Some v \<Rightarrow> wl\<lparr>slots := slots wl,
                        delivered := (delivered wl)(next_chan wl \<mapsto> v),
                        next_chan := Suc (next_chan wl)\<rparr>)"
  using assms
  by (simp add: meanwhile_w Trigger_empty_slot fun_upd_idem split: option.splits)

text \<open>
  C2. A request whose marshalling succeeds and whose ID is not yet registered gets a
  slot and is proposed. Then: (a) when the apply loop has delivered a \<open>Response\<close> and
  the channel case is taken, that response and its \<open>Err\<close> field are returned; (b) when
  the context case is taken, the caller's \<open>Trigger(id, nil)\<close> retires the slot (the
  slot is gone, and nil is what its channel received unless the apply loop came first)
  and the error is the one \<open>parseProposeCtxErr\<close> makes from \<open>ctx.Err()\<close> and the start
  time, with an empty response; (c) when the stopping case is taken, \<open>ErrStopped\<close> is
  returned with an empty response and the slot is left in the table.
\<close>

theorem processRaftRequest_outcomes:
  assumes marshal: "Marshal x r = (data, None)"
    and fresh: "slots (w s) (ID r) = None"
  shows "(\<forall>resp. selected ctx = CaseCh \<and> applied ctx = Some (ResponseValue resp) \<longrightarrow>
            fst (processRaftRequest x ctx r s) = Return (resp, Err resp)) \<and>
         (\<forall>e. selected ctx = CaseCtxDone e \<longrightarrow>
            fst (processRaftRequest x ctx r s) =
              Return (empty_Response, Some (parseProposeCtxErr x e (now ctx))) \<and>
            slots (w (snd (processRaftRequest x ctx r s))) (ID r) = None \<and>
            (applied ctx = None \<longrightarrow>
               delivered (w (snd (processRaftRequest x ctx r s))) (next_chan (w s)) = Some Nil)) \<and>
         (selected ctx = CaseStopping \<longrightarrow>
            fst (processRaftRequest x ctx r s) = Return (empty_Response, Some ErrStopped) \<and>
            (applied ctx = None \<longrightarrow>
               slots (w (snd (processRaftRequest x ctx r s))) (ID r) = Some (next_chan (w s)))) \<and>
         proposed (snd (processRaftRequest x ctx r s)) = proposed s @ [data]"
proof -
  have a: "\<forall>resp. selected ctx = CaseCh \<and> applied ctx = Some (ResponseValue resp) \<longrightarrow>
            fst (processRaftRequest x ctx r s) = Return (resp, Err resp)"
    using marshal fresh
    by (simp add: processRaftRequest_def Register_fresh Let_def table_at_select)
  have b: "\<forall>e. selected ctx = CaseCtxDone e \<longrightarrow>
            fst (processRaftRequest x ctx r s) =
              Return (empty_Response, Some (parseProposeCtxErr x e (now ctx))) \<and>
            slots (w (snd (processRaftRequest x ctx r s))) (ID r) = None \<and>
            (applied ctx = None \<longrightarrow>
               delivered (w (snd (processRaftRequest x ctx r s))) (next_chan (w s)) = Some Nil)"
    using marshal fresh
    by (simp add: processRaftRequest_def Register_fresh Let_def table_at_select
          Trigger_empty_slot Trigger_absent split: option.splits)
  have c: "selected ctx = CaseStopping \<longrightarrow>
            fst (processRaftRequest x ctx r s) = Return (empty_Response, Some ErrStopped) \<and>
            (applied ctx = None \<longrightarrow>
               slots (w (snd (processRaftRequest x ctx r s))) (ID r) = Some (next_chan (w s)))"
    using marshal fresh
    by (simp add: processRaftRequest_def Register_fresh Let_def table_at_select
          split: option.splits)
  have d: "proposed (snd (processRaftRequest x ctx r s)) = proposed s @ [data]"
    using marshal fresh
    by (simp add: processRaftRequest_def Register_fresh Let_def meanwhile_frame
          split: option.splits select_case.splits any.splits outcome.splits)
  from a b c d show ?thesis
    by blast
qed

text \<open>
  C2 at a PUT on a server with an empty table: the result delivered, the caller's
  context cancelled, the server stopping.
\<close>

theorem processRaftRequest_outcomes_witness:
  "fst (processRaftRequest sample_externals delivered_ctx put_request idle_server) =
     Return (applied_response, None) \<and>
   fst (processRaftRequest sample_externals cancelled_ctx put_request idle_server) =
     Return (empty_Response, Some (ForeignError ''etcdserver: request timed out'')) \<and>
   slots (w (snd (processRaftRequest sample_externals cancelled_ctx put_request idle_server))) 7 =
     None \<and>
   fst (processRaftRequest sample_externals stopping_ctx put_request idle_server) =
     Return (empty_Response, Some ErrStopped) \<and>
   proposed (snd (processRaftRequest sample_externals stopping_ctx put_request idle_server)) =
     [''PUT /a'']"
  using
    processRaftRequest_outcomes
      [of sample_externals put_request "''PUT /a''" idle_server delivered_ctx]
    processRaftRequest_outcomes
      [of sample_externals put_request "''PUT /a''" idle_server cancelled_ctx]
    processRaftRequest_outcomes
      [of sample_externals put_request "''PUT /a''" idle_server stopping_ctx]
  by (simp add: sample_externals_def put_request_def idle_server_def delivered_ctx_def
        cancelled_ctx_def stopping_ctx_def applied_response_def)

text \<open>
  C5, as amended. For any request ID, after registration: at most one of apply-result
  delivery and cancellation completes the caller's wait (when the channel case is
  taken the delivered response is returned and the caller triggers nothing; when the
  context case is taken the classified error is returned, also if a result had been
  delivered), and exactly one outcome is returned to the caller. When the wait is
  completed by delivery or by cancellation, the table holds no slot for the ID once
  the caller stops waiting; when it is completed by the stopping signal, the slot stays
  in the table unless the apply loop had already removed it. A second trigger on the
  same ID after the first is a harmless no-op that neither panics nor blocks: it
  returns and leaves the table as the first one left it, and so does the caller's own
  trigger when it loses the race against a delivery.
\<close>

theorem processRaftRequest_slot:
  assumes marshal: "Marshal x r = (data, None)"
    and fresh: "slots (w s) (ID r) = None"
  shows "(\<forall>resp. selected ctx = CaseCh \<and> applied ctx = Some (ResponseValue resp) \<longrightarrow>
            fst (processRaftRequest x ctx r s) = Return (resp, Err resp) \<and>
            slots (w (snd (processRaftRequest x ctx r s))) (ID r) = None \<and>
            delivered (w (snd (processRaftRequest x ctx r s))) (next_chan (w s)) =
              Some (ResponseValue resp)) \<and>
         (\<forall>e. selected ctx = CaseCtxDone e \<longrightarrow>
            fst (processRaftRequest x ctx r s) =
              Return (empty_Response, Some (parseProposeCtxErr x e (now ctx))) \<and>
            slots (w (snd (processRaftRequest x ctx r s))) (ID r) = None \<and>
            delivered (w (snd (processRaftRequest x ctx r s))) (next_chan (w s)) =
              (case applied ctx of None \<Rightarrow> Some Nil | Some v \<Rightarrow> Some v)) \<and>
         (selected ctx = CaseStopping \<longrightarrow>
            fst (processRaftRequest x ctx r s) = Return (empty_Response, Some ErrStopped) \<and>
            (slots (w (snd (processRaftRequest x ctx r s))) (ID r) = None \<longleftrightarrow>
               applied ctx \<noteq> None)) \<and>
         (\<forall>v v'. \<exists>ch wl0 wl1.
            Register (ID r) (w s) = Inr (ch, wl0) \<and>
            Trigger (ID r) v wl0 = Return wl1 \<and>
            Trigger (ID r) v' wl1 = Return wl1 \<and>
            slots wl1 (ID r) = None \<and>
            delivered wl1 ch = Some v)"
proof -
  have a: "\<forall>resp. selected ctx = CaseCh \<and> applied ctx = Some (ResponseValue resp) \<longrightarrow>
            fst (processRaftRequest x ctx r s) = Return (resp, Err resp) \<and>
            slots (w (snd (processRaftRequest x ctx r s))) (ID r) = None \<and>
            delivered (w (snd (processRaftRequest x ctx r s))) (next_chan (w s)) =
              Some (ResponseValue resp)"
    using marshal fresh
    by (simp add: processRaftRequest_def Register_fresh Let_def table_at_select)
  have b: "\<forall>e. selected ctx = CaseCtxDone e \<longrightarrow>
            fst (processRaftRequest x ctx r s) =
              Return (empty_Response, Some (parseProposeCtxErr x e (now ctx))) \<and>
            slots (w (snd (processRaftRequest x ctx r s))) (ID r) = None \<and>
            delivered (w (snd (processRaftRequest x ctx r s))) (next_chan (w s)) =
              (case applied ctx of None \<Rightarrow> Some Nil | Some v \<Rightarrow> Some v)"
    using marshal fresh
    by (simp add: processRaftRequest_def Register_fresh Let_def table_at_select
          Trigger_empty_slot Trigger_absent split: option.splits)
  have c: "selected ctx = CaseStopping \<longrightarrow>
            fst (processRaftRequest x ctx r s) = Return (empty_Response, Some ErrStopped) \<and>
            (slots (w (snd (processRaftRequest x ctx r s))) (ID r) = None \<longleftrightarrow>
               applied ctx \<noteq> None)"
    using marshal fresh
    by (simp add: processRaftRequest_def Register_fresh Let_def table_at_select
          split: option.splits)
  have d: "\<forall>v v'. \<exists>ch wl0 wl1.
            Register (ID r) (w s) = Inr (ch, wl0) \<and>
            Trigger (ID r) v wl0 = Return wl1 \<and>
            Trigger (ID r) v' wl1 = Return wl1 \<and>
            slots wl1 (ID r) = None \<and>
            delivered wl1 ch = Some v"
    using Trigger_twice_after_Register [OF fresh] by blast
  from a b c d show ?thesis
    by blast
qed

text \<open>
  The amended C5 at a delivery, at a cancellation, at a cancellation that loses the
  race against a delivery, and at the stopping signal.
\<close>

theorem processRaftRequest_slot_witness:
  "slots (w (snd (processRaftRequest sample_externals delivered_ctx put_request idle_server))) 7 =
     None \<and>
   slots (w (snd (processRaftRequest sample_externals cancelled_ctx put_request idle_server))) 7 =
     None \<and>
   fst (processRaftRequest sample_externals raced_ctx put_request idle_server) =
     Return (empty_Response, Some (ForeignError ''etcdserver: request timed out'')) \<and>
   delivered (w (snd (processRaftRequest sample_externals raced_ctx put_request idle_server))) 0 =
     Some (ResponseValue applied_response) \<and>
   returns (fst (processRaftRequest sample_externals stopping_ctx put_request idle_server))"
  using
    processRaftRequest_slot
      [of sample_externals put_request "''PUT /a''" idle_server delivered_ctx]
    processRaftRequest_slot
      [of sample_externals put_request "''PUT /a''" idle_server cancelled_ctx]
    processRaftRequest_slot
      [of sample_externals put_request "''PUT /a''" idle_server raced_ctx]
    processRaftRequest_slot
      [of sample_externals put_request "''PUT /a''" idle_server stopping_ctx]
  by (simp add: sample_externals_def put_request_def idle_server_def delivered_ctx_def
        cancelled_ctx_def raced_ctx_def stopping_ctx_def)

text \<open>
  C5 as stated fails when the server is stopping: the caller has stopped waiting and
  has \<open>ErrStopped\<close>, and the table still holds the slot of request 7.
\<close>

theorem processRaftRequest_stopping_counterexample:
  "fst (processRaftRequest sample_externals stopping_ctx put_request idle_server) =
     Return (empty_Response, Some ErrStopped) \<and>
   slots (w (snd (processRaftRequest sample_externals stopping_ctx put_request idle_server))) 7 =
     Some 0"
  by (simp add: processRaftRequest_def Register_def Let_def meanwhile_def sample_externals_def
        put_request_def idle_server_def stopping_ctx_def)

section \<open>Routing in \<open>Handle\<close>, and \<open>Do\<close>\<close>

lemma Handle_request:
  "fst (Handle r ctx v2api s) =
     (if Method r = ''GET'' \<and> Quorum r then r\<lparr>Method := ''QGET''\<rparr> else r)"
  by (simp add: Handle_def Let_def)

lemma Handle_unknown:
  "Method r \<notin> {''POST'', ''PUT'', ''DELETE'', ''QGET'', ''GET'', ''HEAD''} \<Longrightarrow>
   Handle r ctx v2api s = (r, Return (empty_Response, Some ErrUnknownMethod), s)"
  by (simp add: Handle_def Let_def)

text \<open>
  C3. For every request whose method is none of POST, PUT, DELETE, QGET, GET, HEAD,
  \<open>Handle\<close> returns an empty response with \<open>ErrUnknownMethod\<close>, whatever the handler
  is, and leaves the request and the server as they were: no slot is registered in
  the wait table and nothing is proposed.
\<close>

theorem Handle_unknown_method:
  assumes "Method r \<notin> {''POST'', ''PUT'', ''DELETE'', ''QGET'', ''GET'', ''HEAD''}"
  shows "Handle r ctx v2api s = (r, Return (empty_Response, Some ErrUnknownMethod), s) \<and>
         w (snd (snd (Handle r ctx v2api s))) = w s \<and>
         proposed (snd (snd (Handle r ctx v2api s))) = proposed s"
  using assms by (simp add: Handle_unknown)

text \<open>C3 at a request with the method PATCH.\<close>

theorem Handle_unknown_method_witness:
  "Handle (put_request\<lparr>Method := ''PATCH''\<rparr>) stopping_ctx
     (reqV2HandlerEtcdServer sample_externals) idle_server =
   (put_request\<lparr>Method := ''PATCH''\<rparr>, Return (empty_Response, Some ErrUnknownMethod),
    idle_server)"
  using Handle_unknown_method [of "put_request\<lparr>Method := ''PATCH''\<rparr>" stopping_ctx
      "reqV2HandlerEtcdServer sample_externals" idle_server]
  by (simp add: put_request_def)

lemma Handle_quorum_GET:
  "Method r = ''GET'' \<Longrightarrow> Quorum r \<Longrightarrow>
   Handle r ctx (reqV2HandlerEtcdServer x) s =
     (r\<lparr>Method := ''QGET''\<rparr>, processRaftRequest x ctx (r\<lparr>Method := ''QGET''\<rparr>) s)"
  by (simp add: Handle_def Let_def reqV2HandlerEtcdServer_def)

lemma Handle_local_GET:
  "Method r = ''GET'' \<Longrightarrow> \<not> Quorum r \<Longrightarrow>
   Handle r ctx (reqV2HandlerEtcdServer x) s =
     (r, on_v2store (reqV2HandlerStore_Get x ctx r) s)"
  by (simp add: Handle_def Let_def reqV2HandlerEtcdServer_def)

lemma Handle_HEAD:
  "Method r = ''HEAD'' \<Longrightarrow>
   Handle r ctx (reqV2HandlerEtcdServer x) s =
     (r, on_v2store (reqV2HandlerStore_Head x ctx r) s)"
  by (simp add: Handle_def Let_def reqV2HandlerEtcdServer_def)

lemma on_v2store_frame:
  "w (snd (on_v2store f s)) = w s \<and> proposed (snd (on_v2store f s)) = proposed s"
  by (simp add: on_v2store_def split: prod.splits)

lemma on_v2store_Get:
  "(fst (on_v2store (reqV2HandlerStore_Get x ctx r) s),
    v2store (snd (on_v2store (reqV2HandlerStore_Get x ctx r) s))) =
   (if Wait r then
      (case store_Watch x (Path r) (Recursive r) (Stream r) (Since r) (v2store s) of
         ((wc, err), st') \<Rightarrow> (Return (empty_Response\<lparr>Watcher := wc\<rparr>, err), st'))
    else
      (case store_Get x (Path r) (Recursive r) (Sorted r) (v2store s) of
         ((ev, err), st') \<Rightarrow> (Return (empty_Response\<lparr>Event := ev\<rparr>, err), st')))"
  by (simp add: on_v2store_def reqV2HandlerStore_Get_def split: prod.splits)

lemma on_v2store_Head:
  "(fst (on_v2store (reqV2HandlerStore_Head x ctx r) s),
    v2store (snd (on_v2store (reqV2HandlerStore_Head x ctx r) s))) =
   (case store_Get x (Path r) (Recursive r) (Sorted r) (v2store s) of
      ((ev, err), st') \<Rightarrow> (Return (empty_Response\<lparr>Event := ev\<rparr>, err), st'))"
  by (simp add: on_v2store_def reqV2HandlerStore_Head_def split: prod.splits)

lemma processRaftRequest_proposes:
  "Marshal x r = (data, None) \<Longrightarrow> slots (w s) (ID r) = None \<Longrightarrow>
   proposed (snd (processRaftRequest x ctx r s)) = proposed s @ [data]"
  by (simp add: processRaftRequest_def Register_fresh Let_def meanwhile_frame
        split: option.splits select_case.splits any.splits outcome.splits)


text \<open>
  C4. With the handler of the server, \<open>Handle\<close> rewrites the method of a GET request
  with \<open>Quorum\<close> set to QGET and hands it to \<open>processRaftRequest\<close>, which proposes it
  (when it can be marshalled and its ID is not registered yet). A GET request without
  \<open>Quorum\<close> and every HEAD request is answered from the store, by \<open>store.Watch\<close> for a
  GET with \<open>Wait\<close> set and by \<open>store.Get\<close> otherwise; the request, the wait table and
  the list of proposals stay as they were.
\<close>

theorem Handle_read_routing:
  "(Method r = ''GET'' \<and> Quorum r \<longrightarrow>
      Handle r ctx (reqV2HandlerEtcdServer x) s =
        (r\<lparr>Method := ''QGET''\<rparr>, processRaftRequest x ctx (r\<lparr>Method := ''QGET''\<rparr>) s) \<and>
      (\<forall>data. Marshal x (r\<lparr>Method := ''QGET''\<rparr>) = (data, None) \<and>
              slots (w s) (ID r) = None \<longrightarrow>
         proposed (snd (snd (Handle r ctx (reqV2HandlerEtcdServer x) s))) =
           proposed s @ [data])) \<and>
   (Method r = ''GET'' \<and> \<not> Quorum r \<longrightarrow>
      fst (Handle r ctx (reqV2HandlerEtcdServer x) s) = r \<and>
      w (snd (snd (Handle r ctx (reqV2HandlerEtcdServer x) s))) = w s \<and>
      proposed (snd (snd (Handle r ctx (reqV2HandlerEtcdServer x) s))) = proposed s \<and>
      (fst (snd (Handle r ctx (reqV2HandlerEtcdServer x) s)),
       v2store (snd (snd (Handle r ctx (reqV2HandlerEtcdServer x) s)))) =
        (if Wait r then
           (case store_Watch x (Path r) (Recursive r) (Stream r) (Since r) (v2store s) of
              ((wc, err), st') \<Rightarrow> (Return (empty_Response\<lparr>Watcher := wc\<rparr>, err), st'))
         else
           (case store_Get x (Path r) (Recursive r) (Sorted r) (v2store s) of
              ((ev, err), st') \<Rightarrow> (Return (empty_Response\<lparr>Event := ev\<rparr>, err), st')))) \<and>
   (Method r = ''HEAD'' \<longrightarrow>
      fst (Handle r ctx (reqV2HandlerEtcdServer x) s) = r \<and>
      w (snd (snd (Handle r ctx (reqV2HandlerEtcdServer x) s))) = w s \<and>
      proposed (snd (snd (Handle r ctx (reqV2HandlerEtcdServer x) s))) = proposed s \<and>
      (fst (snd (Handle r ctx (reqV2HandlerEtcdServer x) s)),
       v2store (snd (snd (Handle r ctx (reqV2HandlerEtcdServer x) s)))) =
        (case store_Get x (Path r) (Recursive r) (Sorted r) (v2store s) of
           ((ev, err), st') \<Rightarrow> (Return (empty_Response\<lparr>Event := ev\<rparr>, err), st')))"
proof -
  have quorum: "Method r = ''GET'' \<and> Quorum r \<longrightarrow>
      Handle r ctx (reqV2HandlerEtcdServer x) s =
        (r\<lparr>Method := ''QGET''\<rparr>, processRaftRequest x ctx (r\<lparr>Method := ''QGET''\<rparr>) s) \<and>
      (\<forall>data. Marshal x (r\<lparr>Method := ''QGET''\<rparr>) = (data, None) \<and>
              slots (w s) (ID r) = None \<longrightarrow>
         proposed (snd (snd (Handle r ctx (reqV2HandlerEtcdServer x) s))) =
           proposed s @ [data])"
    using processRaftRequest_proposes [of x "r\<lparr>Method := ''QGET''\<rparr>" _ s ctx]
    by (simp add: Handle_quorum_GET)
  have local: "Method r = ''GET'' \<and> \<not> Quorum r \<longrightarrow>
      fst (Handle r ctx (reqV2HandlerEtcdServer x) s) = r \<and>
      w (snd (snd (Handle r ctx (reqV2HandlerEtcdServer x) s))) = w s \<and>
      proposed (snd (snd (Handle r ctx (reqV2HandlerEtcdServer x) s))) = proposed s \<and>
      (fst (snd (Handle r ctx (reqV2HandlerEtcdServer x) s)),
       v2store (snd (snd (Handle r ctx (reqV2HandlerEtcdServer x) s)))) =
        (if Wait r then
           (case store_Watch x (Path r) (Recursive r) (Stream r) (Since r) (v2store s) of
              ((wc, err), st') \<Rightarrow> (Return (empty_Response\<lparr>Watcher := wc\<rparr>, err), st'))
         else
           (case store_Get x (Path r) (Recursive r) (Sorted r) (v2store s) of
              ((ev, err), st') \<Rightarrow> (Return (empty_Response\<lparr>Event := ev\<rparr>, err), st')))"
    using on_v2store_Get [of x ctx r s] on_v2store_frame [of "reqV2HandlerStore_Get x ctx r" s]
    by (simp add: Handle_local_GET)
  have head: "Method r = ''HEAD'' \<longrightarrow>
      fst (Handle r ctx (reqV2HandlerEtcdServer x) s) = r \<and>
      w (snd (snd (Handle r ctx (reqV2HandlerEtcdServer x) s))) = w s \<and>
      proposed (snd (snd (Handle r ctx (reqV2HandlerEtcdServer x) s))) = proposed s \<and>
      (fst (snd (Handle r ctx (reqV2HandlerEtcdServer x) s)),
       v2store (snd (snd (Handle r ctx (reqV2HandlerEtcdServer x) s)))) =
        (case store_Get x (Path r) (Recursive r) (Sorted r) (v2store s) of
           ((ev, err), st') \<Rightarrow> (Return (empty_Response\<lparr>Event := ev\<rparr>, err), st'))"
    using on_v2store_Head [of x ctx r s] on_v2store_frame [of "reqV2HandlerStore_Head x ctx r" s]
    by (simp add: Handle_HEAD)
  from quorum local head show ?thesis
    by blast
qed


text \<open>
  C4 at a quorum GET, a plain GET, a waiting GET and a HEAD (with \<open>Quorum\<close> set, which
  \<open>Handle\<close> ignores for HEAD).
\<close>

theorem Handle_read_routing_witness:
  "proposed (snd (snd (Handle (put_request\<lparr>Method := ''GET'', Quorum := True\<rparr>) stopping_ctx
      (reqV2HandlerEtcdServer sample_externals) idle_server))) = [''QGET /a''] \<and>
   snd (Handle (put_request\<lparr>Method := ''GET''\<rparr>) stopping_ctx
      (reqV2HandlerEtcdServer sample_externals) idle_server) =
     (Return (empty_Response\<lparr>Event := Some (EventPtr 0)\<rparr>, None), idle_server) \<and>
   snd (Handle (put_request\<lparr>Method := ''GET'', Wait := True\<rparr>) stopping_ctx
      (reqV2HandlerEtcdServer sample_externals) idle_server) =
     (Return (empty_Response\<lparr>Watcher := Some (WatcherRef 0)\<rparr>, None),
      idle_server\<lparr>v2store := 1\<rparr>) \<and>
   snd (Handle (put_request\<lparr>Method := ''HEAD'', Quorum := True\<rparr>) stopping_ctx
      (reqV2HandlerEtcdServer sample_externals) idle_server) =
     (Return (empty_Response\<lparr>Event := Some (EventPtr 0)\<rparr>, None), idle_server)"
  using
    Handle_read_routing [of "put_request\<lparr>Method := ''GET'', Quorum := True\<rparr>"
      stopping_ctx sample_externals idle_server]
    Handle_read_routing [of "put_request\<lparr>Method := ''GET''\<rparr>"
      stopping_ctx sample_externals idle_server]
    Handle_read_routing [of "put_request\<lparr>Method := ''GET'', Wait := True\<rparr>"
      stopping_ctx sample_externals idle_server]
    Handle_read_routing [of "put_request\<lparr>Method := ''HEAD'', Quorum := True\<rparr>"
      stopping_ctx sample_externals idle_server]
  by (simp add: Handle_def Let_def reqV2HandlerEtcdServer_def on_v2store_def
        reqV2HandlerStore_Get_def reqV2HandlerStore_Head_def processRaftRequest_def
        Register_def meanwhile_def stopping_ctx_def put_request_def sample_externals_def
        idle_server_def)

lemma Handle_PUT:
  "Method r = ''PUT'' \<Longrightarrow>
   Handle r ctx (reqV2HandlerEtcdServer x) s = (r, processRaftRequest x ctx r s)"
  by (simp add: Handle_def Let_def reqV2HandlerEtcdServer_def)

lemma Do_state:
  "snd (Do x ctx r s) =
     snd (snd (Handle (r\<lparr>ID := id_sequence x (reqIDGen s)\<rparr>) ctx (reqV2HandlerEtcdServer x)
       (s\<lparr>reqIDGen := Suc (reqIDGen s)\<rparr>)))"
  by (simp add: Do_def reqIDGen_Next_def Let_def split: prod.splits)


text \<open>
  C9, as amended. The dispatch pipeline writes to a request in two places. \<open>Handle\<close>
  rewrites the method of a GET request with \<open>Quorum\<close> set to QGET and changes no other
  field and no other request. \<open>Do\<close> overwrites the ID of its own copy of the request
  with a generated one: the ID that the caller had set does not matter, and what a PUT
  proposes is the marshalled request with the generated ID.
\<close>

theorem Handle_rewrites_only_Method:
  "fst (Handle r ctx v2api s) =
     (if Method r = ''GET'' \<and> Quorum r then r\<lparr>Method := ''QGET''\<rparr> else r) \<and>
   Do x c (r\<lparr>ID := i\<rparr>) srv = Do x c r srv \<and>
   (\<forall>data. Method r = ''PUT'' \<and>
      Marshal x (r\<lparr>ID := id_sequence x (reqIDGen srv)\<rparr>) = (data, None) \<and>
      slots (w srv) (id_sequence x (reqIDGen srv)) = None \<longrightarrow>
        proposed (snd (Do x c r srv)) = proposed srv @ [data])"
proof -
  have handle: "fst (Handle r ctx v2api s) =
     (if Method r = ''GET'' \<and> Quorum r then r\<lparr>Method := ''QGET''\<rparr> else r)"
    by (rule Handle_request)
  have do_id: "Do x c (r\<lparr>ID := i\<rparr>) srv = Do x c r srv"
    by (simp add: Do_def)
  have do_put: "\<forall>data. Method r = ''PUT'' \<and>
      Marshal x (r\<lparr>ID := id_sequence x (reqIDGen srv)\<rparr>) = (data, None) \<and>
      slots (w srv) (id_sequence x (reqIDGen srv)) = None \<longrightarrow>
        proposed (snd (Do x c r srv)) = proposed srv @ [data]"
    using processRaftRequest_proposes
      [of x "r\<lparr>ID := id_sequence x (reqIDGen srv)\<rparr>" _ "srv\<lparr>reqIDGen := Suc (reqIDGen srv)\<rparr>" c]
    by (simp add: Do_state Handle_PUT)
  from handle do_id do_put show ?thesis
    by blast
qed

text \<open>The amended C9 at a PUT request.\<close>

theorem Handle_rewrites_only_Method_witness:
  "fst (Handle put_request stopping_ctx (reqV2HandlerEtcdServer sample_externals) idle_server) =
     put_request \<and>
   proposed (snd (Do sample_externals stopping_ctx put_request idle_server)) = [''PUT /a'']"
  using Handle_rewrites_only_Method [of put_request stopping_ctx
      "reqV2HandlerEtcdServer sample_externals" idle_server sample_externals stopping_ctx 7
      idle_server]
  by (simp add: put_request_def sample_externals_def idle_server_def)

text \<open>
  C9 as stated fails at a GET request with \<open>Quorum\<close> set: after \<open>Handle\<close> its method
  is QGET.
\<close>

theorem Handle_quorum_GET_counterexample:
  "Method (put_request\<lparr>Method := ''GET'', Quorum := True\<rparr>) = ''GET'' \<and>
   Method (fst (Handle (put_request\<lparr>Method := ''GET'', Quorum := True\<rparr>) stopping_ctx
      (reqV2HandlerEtcdServer sample_externals) idle_server)) = ''QGET''"
  by (simp add: Handle_def Let_def put_request_def)






end
